theory Spec2Isabelle
  imports Main "HOL-Library.Sublist"
begin

section \<open>The Copy Path plugin (src/main.ts)\<close>

text \<open>
  A shallow embedding of \<^verbatim>\<open>src/main.ts\<close>: the plugin class \<^verbatim>\<open>CopyPathPlugin\<close>, its
  settings and the change handlers of \<^verbatim>\<open>CopyPathSettingTab\<close>. Strings are lists of
  characters; every operation of the plugin on them (template concatenation,
  \<^verbatim>\<open>Array.prototype.join\<close>) works character by character. What the host application
  supplies (the workspace, the vault, the clipboard) is a parameter of the model.
\<close>

subsection \<open>Values of type \<^verbatim>\<open>any\<close>\<close>

text \<open>
  \<^verbatim>\<open>loadData()\<close> and the file explorer's view are typed \<^verbatim>\<open>any\<close>. Such a value is
  \<^verbatim>\<open>undefined\<close>, \<^verbatim>\<open>null\<close>, a boolean, a number (integer-valued numbers are modelled:
  the plugin only ever tests a number for truthiness), a string, an array, a plain
  object given by its own enumerable properties in order, or a DOM token list (the
  \<^verbatim>\<open>classList\<close> of an element), the one object here with a callable \<^verbatim>\<open>contains\<close>.
\<close>

datatype jsval =
    JUndefined
  | JNull
  | JBool bool
  | JNum int
  | JStr string
  | JArr "jsval list"
  | JObj "(string \<times> jsval) list"
  | JTokenList "string list"

datatype js_error = TypeError | HostError string

text \<open>JavaScript's \<^verbatim>\<open>ToBoolean\<close>.\<close>

fun truthy :: "jsval \<Rightarrow> bool" where
  "truthy JUndefined = False"
| "truthy JNull = False"
| "truthy (JBool b) = b"
| "truthy (JNum n) = (n \<noteq> 0)"
| "truthy (JStr s) = (s \<noteq> [])"
| "truthy (JArr xs) = True"
| "truthy (JObj kvs) = True"
| "truthy (JTokenList cs) = True"

fun nullish :: "jsval \<Rightarrow> bool" where
  "nullish JUndefined = True"
| "nullish JNull = True"
| "nullish v = False"

text \<open>
  Decimal digits of a natural number: JavaScript's conversion of a non-negative
  integer to a string, as \<^verbatim>\<open>${count}\<close> performs it and as array indices are named.
\<close>

definition digit_char :: "nat \<Rightarrow> char" where
  "digit_char d = char_of (48 + d)"

function show_nat :: "nat \<Rightarrow> string" where
  "show_nat n = (if n < 10 then [digit_char n] else show_nat (n div 10) @ [digit_char (n mod 10)])"
  by pat_completeness auto
termination
  by (relation "measure (\<lambda>n. n)") auto

declare show_nat.simps [simp del]

text \<open>The number a string of decimal digits denotes.\<close>

definition decimal_value :: "string \<Rightarrow> nat" where
  "decimal_value s = foldl (\<lambda>a c. 10 * a + (of_char c - 48)) 0 s"

text \<open>
  A plain object is the list of its own enumerable string-keyed properties, in the
  order the engine enumerates them: the names that are array indices first, in
  ascending numeric order, then the other names in the order they were added. In an
  object the names are pairwise distinct. A name is an array index when it is the
  decimal numeral, without a leading zero, of an integer below 4294967295.
\<close>

type_synonym jsobject = "(string \<times> jsval) list"

definition is_index :: "string \<Rightarrow> bool" where
  "is_index k =
     (k \<noteq> [] \<and> list_all (\<lambda>c. c \<in> set ''0123456789'') k
      \<and> (k = ''0'' \<or> hd k \<noteq> CHR ''0'') \<and> decimal_value k < 4294967295)"

text \<open>
  Reading a name the object lacks gives \<^verbatim>\<open>undefined\<close>. Writing a name the object has
  replaces its value in place; writing a new name adds the property where the engine
  enumerates it: an array index after the smaller indices, any other name at the end.
\<close>

definition get_field :: "jsobject \<Rightarrow> string \<Rightarrow> jsval" where
  "get_field obj k = (case map_of obj k of None \<Rightarrow> JUndefined | Some v \<Rightarrow> v)"

fun replace_field :: "jsobject \<Rightarrow> string \<Rightarrow> jsval \<Rightarrow> jsobject" where
  "replace_field [] k v = []"
| "replace_field ((k', v') # kvs) k v =
     (if k' = k then (k, v) # kvs else (k', v') # replace_field kvs k v)"

fun add_index :: "jsobject \<Rightarrow> string \<Rightarrow> jsval \<Rightarrow> jsobject" where
  "add_index [] k v = [(k, v)]"
| "add_index ((k', v') # kvs) k v =
     (if is_index k' \<and> decimal_value k' < decimal_value k then (k', v') # add_index kvs k v
      else (k, v) # (k', v') # kvs)"

definition set_field :: "jsobject \<Rightarrow> string \<Rightarrow> jsval \<Rightarrow> jsobject" where
  "set_field obj k v =
     (if k \<in> fst ` set obj then replace_field obj k v
      else if is_index k then add_index obj k v
      else obj @ [(k, v)])"

text \<open>
  The own enumerable properties of any value: what \<^verbatim>\<open>Object.entries\<close> lists and
  \<^verbatim>\<open>Object.assign\<close> copies. A string has its characters under their indices, an array
  its elements, a token list its tokens; the other primitives have none.
\<close>

fun indexed :: "nat \<Rightarrow> 'a list \<Rightarrow> (string \<times> 'a) list" where
  "indexed i [] = []"
| "indexed i (x # xs) = (show_nat i, x) # indexed (Suc i) xs"

fun ownProps :: "jsval \<Rightarrow> jsobject" where
  "ownProps (JObj kvs) = kvs"
| "ownProps (JArr xs) = indexed 0 xs"
| "ownProps (JStr s) = indexed 0 (map (\<lambda>c. JStr [c]) s)"
| "ownProps (JTokenList cs) = indexed 0 (map JStr cs)"
| "ownProps v = []"

text \<open>
  Property read \<^verbatim>\<open>v.k\<close> on a value of type \<^verbatim>\<open>any\<close>, for the names the plugin reads
  (\<^verbatim>\<open>fileItems\<close>, \<^verbatim>\<open>selfEl\<close>, \<^verbatim>\<open>classList\<close>): on \<^verbatim>\<open>undefined\<close> and \<^verbatim>\<open>null\<close> it throws a
  \<^verbatim>\<open>TypeError\<close>; the primitives, arrays and token lists have no property of these
  names.
\<close>

fun getProp :: "jsval \<Rightarrow> string \<Rightarrow> js_error + jsval" where
  "getProp JUndefined k = Inl TypeError"
| "getProp JNull k = Inl TypeError"
| "getProp (JObj kvs) k = Inr (get_field kvs k)"
| "getProp v k = Inr JUndefined"

text \<open>
  The method call \<^verbatim>\<open>v.contains(c)\<close>: a token list answers whether it holds the token;
  no other value has a callable \<^verbatim>\<open>contains\<close>, and calling what is not a function throws
  a \<^verbatim>\<open>TypeError\<close>.
\<close>

fun call_contains :: "jsval \<Rightarrow> string \<Rightarrow> js_error + jsval" where
  "call_contains (JTokenList cs) c = Inr (JBool (c \<in> set cs))"
| "call_contains v c = Inl TypeError"



subsection \<open>Entries of the vault\<close>

text \<open>
  \<^verbatim>\<open>TAbstractFile\<close> with its subclasses \<^verbatim>\<open>TFile\<close> and \<^verbatim>\<open>TFolder\<close> (a folder carries its
  children). \<^verbatim>\<open>TOther\<close> is an abstract file that is an instance of neither class.
\<close>

datatype entry =
    TFile string
  | TFolder string "entry list"
  | TOther string

fun path :: "entry \<Rightarrow> string" where
  "path (TFile p) = p"
| "path (TFolder p children) = p"
| "path (TOther p) = p"

fun instanceof_TFile :: "entry \<Rightarrow> bool" where
  "instanceof_TFile (TFile p) = True"
| "instanceof_TFile e = False"

fun instanceof_TFolder :: "entry \<Rightarrow> bool" where
  "instanceof_TFolder (TFolder p children) = True"
| "instanceof_TFolder e = False"

subsection \<open>collectAllPaths\<close>

text \<open>
  The loop of \<^verbatim>\<open>collectAllPaths\<close> (lines 160-167): \<^verbatim>\<open>paths\<close> is the array built so far,
  \<^verbatim>\<open>push\<close> appends at its end.
\<close>

fun collectAllPaths_loop :: "entry list \<Rightarrow> string list \<Rightarrow> string list" where
  "collectAllPaths_loop [] paths = paths"
| "collectAllPaths_loop (item # items) paths =
     (if instanceof_TFile item then collectAllPaths_loop items (paths @ [path item])
      else if instanceof_TFolder item then collectAllPaths_loop items (paths @ [path item])
      else collectAllPaths_loop items paths)"

definition collectAllPaths :: "entry list \<Rightarrow> string list" where
  "collectAllPaths items = collectAllPaths_loop items []"

subsection \<open>formatPaths\<close>

text \<open>
  \<^verbatim>\<open>Array.prototype.join\<close>: the result \<^verbatim>\<open>R\<close> starts empty; before every element but the
  first the separator is appended, then the element.
\<close>

fun join_loop :: "string list \<Rightarrow> string \<Rightarrow> bool \<Rightarrow> string \<Rightarrow> string" where
  "join_loop [] sep first R = R"
| "join_loop (x # xs) sep first R =
     join_loop xs sep False ((if first then R else R @ sep) @ x)"

definition join :: "string list \<Rightarrow> string \<Rightarrow> string" where
  "join xs sep = join_loop xs sep True []"

text \<open>
  \<^verbatim>\<open>formatPaths\<close> (lines 175-178) reads \<^verbatim>\<open>this.settings.quoteStyle\<close>; the first argument
  is the settings object. \<^verbatim>\<open>CHR 0x27\<close> is the single quote, \<^verbatim>\<open>CHR 0x22\<close> the double
  quote.
\<close>

definition formatPaths :: "jsobject \<Rightarrow> string list \<Rightarrow> string" where
  "formatPaths settings paths =
     (let quote = (if get_field settings ''quoteStyle'' = JStr ''single'' then [CHR 0x27] else [CHR 0x22])
      in join (map (\<lambda>p. quote @ p @ quote) paths) '', '')"

subsection \<open>The host and the plugin's state\<close>

text \<open>
  What a run of the plugin does to the outside is recorded in order: a \<^verbatim>\<open>Notice\<close>
  shown, a call of \<^verbatim>\<open>navigator.clipboard.writeText\<close>, a call of \<^verbatim>\<open>console.error\<close>, a
  call of \<^verbatim>\<open>saveData\<close>. The plugin's own mutable state is its \<^verbatim>\<open>settings\<close> object.
\<close>

datatype effect =
    Notice string
  | ClipboardWrite string
  | ConsoleError string js_error
  | SaveData jsobject

record world =
  settings :: jsobject
  effects :: "effect list"

text \<open>
  The host as the plugin queries it: \<^verbatim>\<open>workspace.getActiveFile()\<close> (\<^verbatim>\<open>None\<close> is
  \<^verbatim>\<open>null\<close>), the leaves of \<^verbatim>\<open>workspace.getLeavesOfType("file-explorer")\<close> with their views,
  \<^verbatim>\<open>vault.getAbstractFileByPath\<close>, and whether the clipboard accepts a text (\<^verbatim>\<open>None\<close>: the
  promise of \<^verbatim>\<open>writeText\<close> resolves; \<^verbatim>\<open>Some err\<close>: the call throws or its promise rejects
  with \<^verbatim>\<open>err\<close>).
\<close>

datatype leaf = WorkspaceLeaf (view: jsval)

record host =
  getActiveFile :: "entry option"
  getLeavesOfType_file_explorer :: "leaf list"
  getAbstractFileByPath :: "string \<rightharpoonup> entry"
  writeText :: "string \<Rightarrow> js_error option"

text \<open>How a call ends: it returns (an async function's promise fulfils) or it throws.\<close>

datatype completion = Returned | Thrown js_error

definition new_Notice :: "string \<Rightarrow> world \<Rightarrow> world" where
  "new_Notice message w = w\<lparr>effects := effects w @ [Notice message]\<rparr>"

definition console_error :: "string \<Rightarrow> js_error \<Rightarrow> world \<Rightarrow> world" where
  "console_error label err w = w\<lparr>effects := effects w @ [ConsoleError label err]\<rparr>"

definition clipboard_writeText :: "string \<Rightarrow> world \<Rightarrow> world" where
  "clipboard_writeText s w = w\<lparr>effects := effects w @ [ClipboardWrite s]\<rparr>"

subsection \<open>Settings\<close>

definition DEFAULT_SETTINGS :: jsobject where
  "DEFAULT_SETTINGS = [(''showNotice'', JBool True), (''quoteStyle'', JStr ''single'')]"


definition saveSettings :: "world \<Rightarrow> world" where
  "saveSettings w = w\<lparr>effects := effects w @ [SaveData (settings w)]\<rparr>"

text \<open>The two \<^verbatim>\<open>onChange\<close> handlers of the settings tab (lines 230-233 and 244-247).\<close>

definition onChange_showNotice :: "bool \<Rightarrow> world \<Rightarrow> world" where
  "onChange_showNotice v w =
     saveSettings (w\<lparr>settings := set_field (settings w) ''showNotice'' (JBool v)\<rparr>)"

definition onChange_quoteStyle :: "string \<Rightarrow> world \<Rightarrow> world" where
  "onChange_quoteStyle v w =
     saveSettings (w\<lparr>settings := set_field (settings w) ''quoteStyle'' (JStr v)\<rparr>)"

subsection \<open>copyPathsToClipboard\<close>

text \<open>
  Lines 183-206. The \<^verbatim>\<open>try\<close> block is the case distinction on how \<^verbatim>\<open>writeText\<close> ends;
  its \<^verbatim>\<open>catch\<close> branch is the case \<^verbatim>\<open>Some err\<close>. One invocation is run to its end, with no
  other event of the host in between.
\<close>

definition copyPathsToClipboard :: "host \<Rightarrow> entry list \<Rightarrow> world \<Rightarrow> completion \<times> world" where
  "copyPathsToClipboard h files w =
     (let paths = collectAllPaths files in
      if length paths = 0 then (Returned, new_Notice ''No paths to copy'' w)
      else
        let formattedPaths = formatPaths (settings w) paths;
            w1 = clipboard_writeText formattedPaths w
        in (case writeText h formattedPaths of
              None \<Rightarrow>
                if truthy (get_field (settings w1) ''showNotice'') then
                  let count = length paths;
                      message = (if count = 1 then ''Path copied''
                                 else show_nat count @ '' paths copied'')
                  in (Returned, new_Notice message w1)
                else (Returned, w1)
            | Some err \<Rightarrow>
                (Returned,
                 console_error ''Copy failed:'' err (new_Notice ''Failed to copy to clipboard'' w1))))"

subsection \<open>Selection resolution\<close>

text \<open>
  \<^verbatim>\<open>copyActiveFilePath\<close> (lines 99-106). The promise of \<^verbatim>\<open>copyPathsToClipboard\<close> is not
  awaited: the call returns whatever becomes of it.
\<close>

definition copyActiveFilePath :: "host \<Rightarrow> world \<Rightarrow> completion \<times> world" where
  "copyActiveFilePath h w =
     (case getActiveFile h of
        Some activeFile \<Rightarrow> (Returned, snd (copyPathsToClipboard h [activeFile] w))
      | None \<Rightarrow> (Returned, new_Notice ''No active file'' w))"

text \<open>
  The test of line 140,
  \<^verbatim>\<open>(item as any).selfEl?.classList?.contains("is-selected")\<close>: reading \<^verbatim>\<open>selfEl\<close> of a
  nullish item throws; each \<^verbatim>\<open>?.\<close> ends the chain with \<^verbatim>\<open>undefined\<close> on a nullish value.
\<close>

definition is_selected :: "jsval \<Rightarrow> js_error + jsval" where
  "is_selected item =
     (case getProp item ''selfEl'' of
        Inl err \<Rightarrow> Inl err
      | Inr selfEl \<Rightarrow>
          if nullish selfEl then Inr JUndefined
          else (case getProp selfEl ''classList'' of
                  Inl err \<Rightarrow> Inl err
                | Inr classList \<Rightarrow>
                    if nullish classList then Inr JUndefined
                    else call_contains classList ''is-selected''))"

text \<open>The loop of lines 139-146 over \<^verbatim>\<open>Object.entries(explorerView.fileItems)\<close>.\<close>

fun selected_loop ::
  "host \<Rightarrow> (string \<times> jsval) list \<Rightarrow> entry list \<Rightarrow> js_error + entry list" where
  "selected_loop h [] selectedFiles = Inr selectedFiles"
| "selected_loop h ((p, item) # rest) selectedFiles =
     (case is_selected item of
        Inl err \<Rightarrow> Inl err
      | Inr c \<Rightarrow>
          if truthy c then
            (case getAbstractFileByPath h p of
               Some file \<Rightarrow> selected_loop h rest (selectedFiles @ [file])
             | None \<Rightarrow> selected_loop h rest selectedFiles)
          else selected_loop h rest selectedFiles)"

text \<open>
  \<^verbatim>\<open>getSelectedFilesFromExplorer\<close> (lines 126-152). Indexing the array of leaves at 0
  gives \<^verbatim>\<open>undefined\<close> when there is none. \<^verbatim>\<open>explorerView.fileItems\<close> is read only of a
  truthy view, so the read itself never throws.
\<close>

definition getSelectedFilesFromExplorer :: "host \<Rightarrow> js_error + entry list" where
  "getSelectedFilesFromExplorer h =
     (case getLeavesOfType_file_explorer h of
        [] \<Rightarrow> Inr []
      | fileExplorer # others \<Rightarrow>
          let explorerView = view fileExplorer in
          if \<not> truthy explorerView then Inr []
          else (case getProp explorerView ''fileItems'' of
                  Inl err \<Rightarrow> Inl err
                | Inr fileItems \<Rightarrow>
                    if truthy fileItems then selected_loop h (ownProps fileItems) []
                    else Inr []))"

text \<open>\<^verbatim>\<open>copySelectedFilesPaths\<close> (lines 111-121).\<close>

definition copySelectedFilesPaths :: "host \<Rightarrow> world \<Rightarrow> completion \<times> world" where
  "copySelectedFilesPaths h w =
     (case getSelectedFilesFromExplorer h of
        Inl err \<Rightarrow> (Thrown err, w)
      | Inr selectedFiles \<Rightarrow>
          if length selectedFiles > 0 then (Returned, snd (copyPathsToClipboard h selectedFiles w))
          else copyActiveFilePath h w)"

subsection \<open>Reading a run\<close>

text \<open>The effects a run added, given the world before it and the world after it.\<close>

definition added :: "world \<Rightarrow> world \<Rightarrow> effect list" where
  "added w w' = drop (length (effects w)) (effects w')"

section \<open>The specification's notions\<close>

text \<open>
  What the specification says of the output format, in its own words: each path is
  wrapped in the quote character, and the wrapped paths are joined by a separator.
  These two definitions follow the specification, not the code; the theorems below
  compare them with \<^const>\<open>formatPaths\<close>.
\<close>

definition wrapped :: "char \<Rightarrow> string \<Rightarrow> string" where
  "wrapped q p = [q] @ p @ [q]"

fun joined :: "string \<Rightarrow> string list \<Rightarrow> string" where
  "joined sep [] = []"
| "joined sep [x] = x"
| "joined sep (x # y # ys) = x @ sep @ joined sep (y # ys)"

text \<open>
  The inverse the specification describes: strip the quote characters (the first and
  the last character of the output), then split on the separator made of the quote, a
  comma, a space and the quote. Splitting is JavaScript's \<^verbatim>\<open>String.prototype.split\<close> for a
  separator that is not empty: the text is scanned from the left, \<^verbatim>\<open>piece\<close> is the
  part read since the last separator, and a separator found closes the piece and is
  skipped.
\<close>

definition strip_quotes :: "string \<Rightarrow> string" where
  "strip_quotes s = butlast (tl s)"

fun split_scan :: "string \<Rightarrow> string \<Rightarrow> string \<Rightarrow> string list" where
  "split_scan sep piece [] = [piece]"
| "split_scan sep piece (c # cs) =
     (if prefix sep (c # cs) then piece # split_scan sep [] (drop (length sep - 1) cs)
      else split_scan sep (piece @ [c]) cs)"

definition splitOn :: "string \<Rightarrow> string \<Rightarrow> string list" where
  "splitOn sep s = (if sep = [] then map (\<lambda>c. [c]) s else split_scan sep [] s)"

definition unformat :: "char \<Rightarrow> string \<Rightarrow> string list" where
  "unformat q s = splitOn ([q] @ '', '' @ [q]) (strip_quotes s)"

section \<open>Properties\<close>

subsection \<open>Decimal numerals\<close>

lemma decimal_value_snoc:
  "decimal_value (s @ [c]) = 10 * decimal_value s + (of_char c - 48)"
  by (simp add: decimal_value_def)

lemma decimal_value_digit: "d < 10 \<Longrightarrow> decimal_value [digit_char d] = d"
  by (simp add: decimal_value_def digit_char_def)

lemma show_nat_decimal: "decimal_value (show_nat n) = n"
proof (induction n rule: show_nat.induct)
  case (1 n)
  show ?case
  proof (cases "n < 10")
    case True
    then show ?thesis by (simp add: show_nat.simps decimal_value_digit)
  next
    case False
    have "show_nat n = show_nat (n div 10) @ [digit_char (n mod 10)]"
      using False by (simp add: show_nat.simps)
    moreover have "decimal_value (show_nat (n div 10)) = n div 10"
      using False by (rule "1.IH")
    moreover have "of_char (digit_char (n mod 10)) - 48 = n mod 10"
      by (simp add: digit_char_def)
    ultimately show ?thesis by (simp add: decimal_value_snoc)
  qed
qed


subsection \<open>collectAllPaths\<close>

lemma collectAllPaths_loop_filter:
  "collectAllPaths_loop items acc =
     acc @ map path (filter (\<lambda>e. instanceof_TFile e \<or> instanceof_TFolder e) items)"
  by (induction items arbitrary: acc) auto

text \<open>
  Claim C3. \<^verbatim>\<open>collectAllPaths\<close> returns the paths of the file and folder entries of
  its input, verbatim, in the input's order and with repetitions kept; an entry that is
  neither is skipped. A folder contributes its own path only, whatever its children
  are: wherever a folder stands in the input, the result has the folder's path there
  and nothing of its children.
\<close>

theorem collectAllPaths_order_nodedup:
  "collectAllPaths items = map path (filter (\<lambda>e. instanceof_TFile e \<or> instanceof_TFolder e) items)
   \<and> collectAllPaths (xs @ TFolder p children # ys) = collectAllPaths xs @ [p] @ collectAllPaths ys
   \<and> collectAllPaths (xs @ TFile p # ys) = collectAllPaths xs @ [p] @ collectAllPaths ys
   \<and> collectAllPaths (xs @ TOther p # ys) = collectAllPaths xs @ collectAllPaths ys"
  by (simp add: collectAllPaths_def collectAllPaths_loop_filter)

theorem collectAllPaths_order_nodedup_witness:
  "collectAllPaths
     [TFolder ''notes'' [TFile ''notes/a.md'', TFile ''notes/b.md''], TFile ''x.md'',
      TOther ''y'', TFile ''x.md'']
   = [''notes'', ''x.md'', ''x.md'']"
  using collectAllPaths_order_nodedup
    [of "[TFolder ''notes'' [TFile ''notes/a.md'', TFile ''notes/b.md''], TFile ''x.md'',
          TOther ''y'', TFile ''x.md'']"]
  by simp

subsection \<open>formatPaths\<close>

lemma join_loop_joined:
  "join_loop xs sep first R =
     (if xs = [] then R else (if first then R else R @ sep) @ joined sep xs)"
proof (induction xs arbitrary: first R)
  case Nil
  show ?case by simp
next
  case (Cons x xs)
  have "join_loop (x # xs) sep first R =
          join_loop xs sep False ((if first then R else R @ sep) @ x)"
    by simp
  also have "\<dots> = (if xs = [] then (if first then R else R @ sep) @ x
                     else ((if first then R else R @ sep) @ x) @ sep @ joined sep xs)"
    by (simp add: Cons.IH)
  finally show ?case by (cases xs) simp_all
qed

lemma join_joined: "join xs sep = joined sep xs"
  by (simp add: join_def join_loop_joined)

text \<open>
  Claim C1. For a sequence of paths that is not empty, \<^verbatim>\<open>formatPaths\<close> returns exactly
  the paths, each wrapped in the quote character the configured \<^verbatim>\<open>quoteStyle\<close> selects
  (the single quote for \<^verbatim>\<open>single\<close>, the double quote for \<^verbatim>\<open>double\<close>), joined by a comma and
  a space; every entry of one invocation gets the same quote character.
\<close>

theorem formatPaths_wraps_and_joins:
  "paths \<noteq> [] \<Longrightarrow>
     (get_field st ''quoteStyle'' = JStr ''single'' \<longrightarrow>
        formatPaths st paths = joined '', '' (map (wrapped (CHR 0x27)) paths))
   \<and> (get_field st ''quoteStyle'' = JStr ''double'' \<longrightarrow>
        formatPaths st paths = joined '', '' (map (wrapped (CHR 0x22)) paths))"
  by (simp add: formatPaths_def join_joined wrapped_def [abs_def])

theorem formatPaths_wraps_and_joins_witness:
  "formatPaths [(''showNotice'', JBool True), (''quoteStyle'', JStr ''single'')]
       [''a/b.md'', ''c/d.md'']
     = [CHR 0x27] @ ''a/b.md'' @ [CHR 0x27] @ '', '' @ [CHR 0x27] @ ''c/d.md'' @ [CHR 0x27]
   \<and> formatPaths [(''showNotice'', JBool True), (''quoteStyle'', JStr ''double'')]
       [''notes/a.md'', ''notes/b.md'']
     = [CHR 0x22] @ ''notes/a.md'' @ [CHR 0x22] @ '', ''
        @ [CHR 0x22] @ ''notes/b.md'' @ [CHR 0x22]"
  using formatPaths_wraps_and_joins
      [of "[''a/b.md'', ''c/d.md'']"
          "[(''showNotice'', JBool True), (''quoteStyle'', JStr ''single'')]"]
    formatPaths_wraps_and_joins
      [of "[''notes/a.md'', ''notes/b.md'']"
          "[(''showNotice'', JBool True), (''quoteStyle'', JStr ''double'')]"]
  by (simp add: get_field_def wrapped_def)

subsection \<open>Inverting the format\<close>

lemma split_scan_piece:
  "q \<notin> set p \<Longrightarrow> split_scan (q # sep) piece p = [piece @ p]"
  by (induction p arbitrary: piece) auto

lemma split_scan_separator:
  "q \<notin> set p \<Longrightarrow>
     split_scan (q # sep) piece (p @ (q # sep) @ rest)
       = (piece @ p) # split_scan (q # sep) [] rest"
  by (induction p arbitrary: piece) auto

lemma split_scan_joined:
  "ps \<noteq> [] \<Longrightarrow> \<forall>p \<in> set ps. q \<notin> set p \<Longrightarrow>
     split_scan (q # sep) [] (joined (q # sep) ps) = ps"
proof (induction "q # sep" ps rule: joined.induct)
  case 1
  then show ?case by simp
next
  case (2 x)
  then show ?case by (simp add: split_scan_piece)
next
  case (3 x y ys)
  from 3 have "q \<notin> set x" by simp
  from split_scan_separator [OF this, of sep "[]" "joined (q # sep) (y # ys)"] 3
  show ?case by simp
qed

lemma joined_wrapped:
  "ps \<noteq> [] \<Longrightarrow>
     joined '', '' (map (wrapped q) ps) = [q] @ joined ([q] @ '', '' @ [q]) ps @ [q]"
  by (induction "[q] @ '', '' @ [q]" ps rule: joined.induct) (simp_all add: wrapped_def)

lemma strip_quotes_wrapped: "strip_quotes (q # s @ [q]) = s"
  by (simp add: strip_quotes_def butlast_append)

lemma unformat_joined_wrapped:
  "ps \<noteq> [] \<Longrightarrow> \<forall>p \<in> set ps. q \<notin> set p \<Longrightarrow>
     unformat q (joined '', '' (map (wrapped q) ps)) = ps"
  using split_scan_joined [of ps q "'', '' @ [q]"]
  by (simp add: unformat_def joined_wrapped strip_quotes_wrapped splitOn_def del: joined.simps)

text \<open>
  Claim C9. Let \<^verbatim>\<open>P\<close> be a sequence of paths that is not empty and \<^verbatim>\<open>q\<close> the quote
  character of the configured \<^verbatim>\<open>quoteStyle\<close>. If no path of \<^verbatim>\<open>P\<close> contains \<^verbatim>\<open>q\<close> or the
  substring made of a comma and a space, then stripping the quote characters of
  \<^verbatim>\<open>formatPaths(P)\<close> and splitting on the separator (quote, comma, space, quote) gives \<^verbatim>\<open>P\<close>
  back.
\<close>

theorem formatPaths_invertible:
  "paths \<noteq> [] \<Longrightarrow>
   (get_field st ''quoteStyle'' = JStr ''single'' \<and> q = CHR 0x27)
     \<or> (get_field st ''quoteStyle'' = JStr ''double'' \<and> q = CHR 0x22) \<Longrightarrow>
   \<forall>p \<in> set paths. q \<notin> set p \<and> \<not> sublist '', '' p \<Longrightarrow>
     unformat q (formatPaths st paths) = paths"
  using unformat_joined_wrapped [of paths q]
  by (auto simp add: formatPaths_def join_joined wrapped_def [abs_def])

theorem formatPaths_invertible_witness:
  "unformat (CHR 0x22)
     (formatPaths [(''quoteStyle'', JStr ''double'')] [''notes/a.md'', ''b,c d.md''])
     = [''notes/a.md'', ''b,c d.md'']"
  using formatPaths_invertible
    [of "[''notes/a.md'', ''b,c d.md'']" "[(''quoteStyle'', JStr ''double'')]" "CHR 0x22"]
  by (simp add: get_field_def sublist_code)

subsection \<open>copyPathsToClipboard\<close>

text \<open>
  Claim C2. Whenever \<^verbatim>\<open>collectAllPaths\<close> gives the empty sequence for the entries,
  \<^verbatim>\<open>copyPathsToClipboard\<close> does one thing only, showing the notice
  \<^verbatim>\<open>No paths to copy\<close>: the clipboard is not written, and the call returns normally.
\<close>

theorem copyPathsToClipboard_no_paths:
  "collectAllPaths files = [] \<Longrightarrow>
     copyPathsToClipboard h files w
       = (Returned, w\<lparr>effects := effects w @ [Notice ''No paths to copy'']\<rparr>)
     \<and> added w (snd (copyPathsToClipboard h files w)) = [Notice ''No paths to copy'']"
  by (simp add: copyPathsToClipboard_def new_Notice_def added_def)

theorem copyPathsToClipboard_no_paths_witness:
  "copyPathsToClipboard
       \<lparr>getActiveFile = None, getLeavesOfType_file_explorer = [],
        getAbstractFileByPath = (\<lambda>p. None), writeText = (\<lambda>s. None)\<rparr>
       [TOther ''x''] \<lparr>settings = DEFAULT_SETTINGS, effects = []\<rparr>
     = (Returned, \<lparr>settings = DEFAULT_SETTINGS, effects = [Notice ''No paths to copy'']\<rparr>)
   \<and> copyPathsToClipboard
       \<lparr>getActiveFile = None, getLeavesOfType_file_explorer = [],
        getAbstractFileByPath = (\<lambda>p. None), writeText = (\<lambda>s. None)\<rparr>
       [] \<lparr>settings = DEFAULT_SETTINGS, effects = []\<rparr>
     = (Returned, \<lparr>settings = DEFAULT_SETTINGS, effects = [Notice ''No paths to copy'']\<rparr>)"
  using copyPathsToClipboard_no_paths
      [of "[TOther ''x'']"
          "\<lparr>getActiveFile = None, getLeavesOfType_file_explorer = [],
        getAbstractFileByPath = (\<lambda>p. None), writeText = (\<lambda>s. None)\<rparr>"
          "\<lparr>settings = DEFAULT_SETTINGS, effects = []\<rparr>"]
    copyPathsToClipboard_no_paths
      [of "[]"
          "\<lparr>getActiveFile = None, getLeavesOfType_file_explorer = [],
        getAbstractFileByPath = (\<lambda>p. None), writeText = (\<lambda>s. None)\<rparr>"
          "\<lparr>settings = DEFAULT_SETTINGS, effects = []\<rparr>"]
  by (simp add: collectAllPaths_def)



text \<open>
  Claim C5. Whenever the clipboard write rejects, \<^verbatim>\<open>copyPathsToClipboard\<close> shows the
  notice \<^verbatim>\<open>Failed to copy to clipboard\<close>, whatever \<^verbatim>\<open>showNotice\<close> is, and logs the error
  with \<^verbatim>\<open>console.error\<close>. No call of \<^verbatim>\<open>copyPathsToClipboard\<close> ever ends in an exception.
\<close>

theorem copyPathsToClipboard_write_rejected:
  "fst (copyPathsToClipboard h files w) = Returned
   \<and> (collectAllPaths files \<noteq> [] \<longrightarrow>
      writeText h (formatPaths (settings w) (collectAllPaths files)) = Some err \<longrightarrow>
        copyPathsToClipboard h files w =
          (Returned,
           w\<lparr>effects := effects w
             @ [ClipboardWrite (formatPaths (settings w) (collectAllPaths files)),
                Notice ''Failed to copy to clipboard'',
                ConsoleError ''Copy failed:'' err]\<rparr>))"
  by (simp add: copyPathsToClipboard_def new_Notice_def clipboard_writeText_def
      console_error_def Let_def split: option.split)

theorem copyPathsToClipboard_write_rejected_witness:
  "copyPathsToClipboard
       \<lparr>getActiveFile = None, getLeavesOfType_file_explorer = [],
        getAbstractFileByPath = (\<lambda>p. None),
        writeText = (\<lambda>s. Some (HostError ''NotAllowedError''))\<rparr>
       [TFile ''notes/a.md'']
       \<lparr>settings = [(''showNotice'', JBool False), (''quoteStyle'', JStr ''single'')], effects = []\<rparr>
     = (Returned,
        \<lparr>settings = [(''showNotice'', JBool False), (''quoteStyle'', JStr ''single'')],
         effects = [ClipboardWrite ([CHR 0x27] @ ''notes/a.md'' @ [CHR 0x27]),
                    Notice ''Failed to copy to clipboard'',
                    ConsoleError ''Copy failed:'' (HostError ''NotAllowedError'')]\<rparr>)"
  using copyPathsToClipboard_write_rejected
      [of "\<lparr>getActiveFile = None, getLeavesOfType_file_explorer = [],
            getAbstractFileByPath = (\<lambda>p. None),
            writeText = (\<lambda>s. Some (HostError ''NotAllowedError''))\<rparr>"
          "[TFile ''notes/a.md'']"
          "\<lparr>settings = [(''showNotice'', JBool False), (''quoteStyle'', JStr ''single'')],
            effects = []\<rparr>"
          "HostError ''NotAllowedError''"]
  by (simp add: collectAllPaths_def formatPaths_def join_def get_field_def)

subsection \<open>Selection resolution\<close>

lemma copyPathsToClipboard_first_effect:
  "\<exists>es. added w (snd (copyPathsToClipboard h files w)) = Notice ''No paths to copy'' # es
     \<or> (\<exists>t. added w (snd (copyPathsToClipboard h files w)) = ClipboardWrite t # es)"
  by (simp add: copyPathsToClipboard_def new_Notice_def clipboard_writeText_def
      console_error_def Let_def added_def split: option.split)

text \<open>
  Claim C6. When no file is focused, \<^verbatim>\<open>copyActiveFilePath\<close> shows the notice
  \<^verbatim>\<open>No active file\<close> and does nothing else: in particular nothing is written to the
  clipboard, and what it did is not what any run of \<^verbatim>\<open>copyPathsToClipboard\<close> does (such a
  run starts by showing \<^verbatim>\<open>No paths to copy\<close> or by writing the clipboard). When a file is
  focused, it does what \<^verbatim>\<open>copyPathsToClipboard\<close> does on the list of exactly that file.
\<close>

theorem copyActiveFilePath_cases:
  "(getActiveFile h = None \<longrightarrow>
      copyActiveFilePath h w = (Returned, w\<lparr>effects := effects w @ [Notice ''No active file'']\<rparr>)
      \<and> added w (snd (copyActiveFilePath h w)) = [Notice ''No active file'']
      \<and> added w' (snd (copyPathsToClipboard h' files w')) \<noteq> [Notice ''No active file''])
   \<and> (getActiveFile h = Some f \<longrightarrow>
      copyActiveFilePath h w = (Returned, snd (copyPathsToClipboard h [f] w)))"
  using copyPathsToClipboard_first_effect [of w' h' files]
  by (auto simp add: copyActiveFilePath_def new_Notice_def added_def)

theorem copyActiveFilePath_cases_witness:
  "copyActiveFilePath
       \<lparr>getActiveFile = None, getLeavesOfType_file_explorer = [],
        getAbstractFileByPath = (\<lambda>p. None), writeText = (\<lambda>s. None)\<rparr>
       \<lparr>settings = DEFAULT_SETTINGS, effects = []\<rparr>
     = (Returned, \<lparr>settings = DEFAULT_SETTINGS, effects = [Notice ''No active file'']\<rparr>)
   \<and> copyActiveFilePath
       \<lparr>getActiveFile = Some (TFile ''notes/a.md''), getLeavesOfType_file_explorer = [],
        getAbstractFileByPath = (\<lambda>p. None), writeText = (\<lambda>s. None)\<rparr>
       \<lparr>settings = DEFAULT_SETTINGS, effects = []\<rparr>
     = (Returned,
        \<lparr>settings = DEFAULT_SETTINGS,
         effects = [ClipboardWrite ([CHR 0x27] @ ''notes/a.md'' @ [CHR 0x27]),
                    Notice ''Path copied'']\<rparr>)"
  using copyActiveFilePath_cases
      [of "\<lparr>getActiveFile = None, getLeavesOfType_file_explorer = [],
            getAbstractFileByPath = (\<lambda>p. None), writeText = (\<lambda>s. None)\<rparr>"
          "\<lparr>settings = DEFAULT_SETTINGS, effects = []\<rparr>"]
    copyActiveFilePath_cases
      [of "\<lparr>getActiveFile = Some (TFile ''notes/a.md''), getLeavesOfType_file_explorer = [],
            getAbstractFileByPath = (\<lambda>p. None), writeText = (\<lambda>s. None)\<rparr>"
          "\<lparr>settings = DEFAULT_SETTINGS, effects = []\<rparr>" _ _ _ "TFile ''notes/a.md''"]
  by (simp add: copyPathsToClipboard_def collectAllPaths_def formatPaths_def join_def
      get_field_def DEFAULT_SETTINGS_def new_Notice_def clipboard_writeText_def)

text \<open>
  The guards of \<^verbatim>\<open>getSelectedFilesFromExplorer\<close>: it returns the empty sequence when
  there is no file-explorer leaf (lines 128-130), when the leaf's view is falsy and when
  the view has no truthy \<^verbatim>\<open>fileItems\<close> (lines 136 and 151). Whenever the query gives the
  empty sequence, \<^verbatim>\<open>copySelectedFilesPaths\<close> is \<^verbatim>\<open>copyActiveFilePath\<close>.
\<close>

lemma getSelectedFilesFromExplorer_guards:
  "(getLeavesOfType_file_explorer h = [] \<longrightarrow> getSelectedFilesFromExplorer h = Inr [])
   \<and> (getLeavesOfType_file_explorer h = l # ls \<longrightarrow> \<not> truthy (view l) \<longrightarrow>
        getSelectedFilesFromExplorer h = Inr [])
   \<and> (getLeavesOfType_file_explorer h = l # ls \<longrightarrow>
        getProp (view l) ''fileItems'' = Inr fileItems \<longrightarrow> \<not> truthy fileItems \<longrightarrow>
        getSelectedFilesFromExplorer h = Inr [])
   \<and> (getSelectedFilesFromExplorer h = Inr [] \<longrightarrow>
        copySelectedFilesPaths h w = copyActiveFilePath h w)"
  by (auto simp add: getSelectedFilesFromExplorer_def copySelectedFilesPaths_def Let_def)

text \<open>
  Inside a truthy \<^verbatim>\<open>fileItems\<close> the traversal is by item: an item is selected when the
  class list of its \<^verbatim>\<open>selfEl\<close> holds \<^verbatim>\<open>is-selected\<close>; an item without \<^verbatim>\<open>selfEl\<close>, or whose
  \<^verbatim>\<open>selfEl\<close> has no \<^verbatim>\<open>classList\<close>, counts as not selected; a path the vault does not know is
  skipped.
\<close>

lemma is_selected_cases:
  "is_selected (JObj [(''selfEl'', JObj [(''classList'', JTokenList cs)])])
     = Inr (JBool (''is-selected'' \<in> set cs))"
  "is_selected (JObj []) = Inr JUndefined"
  "is_selected (JObj [(''selfEl'', JObj [])]) = Inr JUndefined"
  "nullish item \<Longrightarrow> is_selected item = Inl TypeError"
  by (cases item; simp add: is_selected_def get_field_def)+

lemma selected_loop_none_selected:
  "\<forall>(p, item) \<in> set items. \<exists>c. is_selected item = Inr c \<and> \<not> truthy c \<Longrightarrow>
     selected_loop h items selectedFiles = Inr selectedFiles"
  by (induction items arbitrary: selectedFiles) auto

lemma getSelectedFilesFromExplorer_example:
  "getSelectedFilesFromExplorer
     \<lparr>getActiveFile = None,
      getLeavesOfType_file_explorer = [WorkspaceLeaf (JObj [(''fileItems'', JObj
        [(''a.md'', JObj [(''selfEl'', JObj [(''classList'', JTokenList [''nav-file-title''])])]),
         (''b.md'', JObj [(''selfEl'', JObj [(''classList'',
            JTokenList [''nav-file-title'', ''is-selected''])])]),
         (''gone.md'', JObj [(''selfEl'', JObj [(''classList'', JTokenList [''is-selected''])])]),
         (''dir'', JObj [(''selfEl'', JObj [(''classList'', JTokenList [''is-selected''])])])])])],
      getAbstractFileByPath =
        [''a.md'' \<mapsto> TFile ''a.md'', ''b.md'' \<mapsto> TFile ''b.md'', ''dir'' \<mapsto> TFolder ''dir'' []],
      writeText = (\<lambda>s. None)\<rparr>
   = Inr [TFile ''b.md'', TFolder ''dir'' []]"
  by (simp add: getSelectedFilesFromExplorer_def is_selected_def get_field_def)


subsection \<open>Settings\<close>






lemma set_field_named:
  "\<not> is_index k \<Longrightarrow>
     set_field obj k v = (if k \<in> fst ` set obj then replace_field obj k v else obj @ [(k, v)])"
  by (simp add: set_field_def)

lemma set_field_order_examples:
  "set_field [(''showNotice'', JBool True)] ''1'' (JStr ''b'')
     = [(''1'', JStr ''b''), (''showNotice'', JBool True)]"
  "set_field [(''0'', JStr ''a''), (''2'', JStr ''c''), (''showNotice'', JBool True)] ''1'' (JStr ''b'')
     = [(''0'', JStr ''a''), (''1'', JStr ''b''), (''2'', JStr ''c''), (''showNotice'', JBool True)]"
  "set_field [(''0'', JStr ''a''), (''showNotice'', JBool True)] ''01'' (JStr ''b'')
     = [(''0'', JStr ''a''), (''showNotice'', JBool True), (''01'', JStr ''b'')]"
  "set_field [(''showNotice'', JBool True), (''quoteStyle'', JStr ''single'')] ''showNotice'' (JBool False)
     = [(''showNotice'', JBool False), (''quoteStyle'', JStr ''single'')]"
  by (simp_all add: set_field_def is_index_def decimal_value_def)






subsection \<open>The settings object as a frame\<close>

lemma copyPathsToClipboard_settings:
  "settings (snd (copyPathsToClipboard h files w)) = settings w"
  by (simp add: copyPathsToClipboard_def new_Notice_def clipboard_writeText_def
      console_error_def Let_def split: option.split)

lemma copyActiveFilePath_settings:
  "settings (snd (copyActiveFilePath h w)) = settings w"
  by (simp add: copyActiveFilePath_def copyPathsToClipboard_settings new_Notice_def
      split: option.split)

lemma copySelectedFilesPaths_settings:
  "settings (snd (copySelectedFilesPaths h w)) = settings w"
  by (simp add: copySelectedFilesPaths_def copyPathsToClipboard_settings
      copyActiveFilePath_settings split: sum.split)

text \<open>
  Claim C10. No copy operation changes the settings object, however it ends:
  \<^verbatim>\<open>copyPathsToClipboard\<close>, \<^verbatim>\<open>copyActiveFilePath\<close> and \<^verbatim>\<open>copySelectedFilesPaths\<close> leave it as
  it was (\<^verbatim>\<open>collectAllPaths\<close> and \<^verbatim>\<open>formatPaths\<close>, which they call, only compute a value and
  have no state to return). The fields are written by the two change handlers of the
  settings tab, each writing its own field.
\<close>

theorem settings_frame:
  "settings (snd (copyPathsToClipboard h files w)) = settings w
   \<and> settings (snd (copyActiveFilePath h w)) = settings w
   \<and> settings (snd (copySelectedFilesPaths h w)) = settings w
   \<and> settings (onChange_showNotice b w) = set_field (settings w) ''showNotice'' (JBool b)
   \<and> settings (onChange_quoteStyle q w) = set_field (settings w) ''quoteStyle'' (JStr q)"
  by (simp add: copyPathsToClipboard_settings copyActiveFilePath_settings
      copySelectedFilesPaths_settings onChange_showNotice_def onChange_quoteStyle_def
      saveSettings_def)

theorem settings_frame_witness:
  "settings (snd (copySelectedFilesPaths
       \<lparr>getActiveFile = Some (TFile ''notes/a.md''), getLeavesOfType_file_explorer = [],
        getAbstractFileByPath = (\<lambda>p. None),
        writeText = (\<lambda>s. Some (HostError ''NotAllowedError''))\<rparr>
       \<lparr>settings = DEFAULT_SETTINGS, effects = []\<rparr>)) = DEFAULT_SETTINGS
   \<and> settings (onChange_quoteStyle ''double'' \<lparr>settings = DEFAULT_SETTINGS, effects = []\<rparr>)
     = [(''showNotice'', JBool True), (''quoteStyle'', JStr ''double'')]"
  using settings_frame
      [of "\<lparr>getActiveFile = Some (TFile ''notes/a.md''), getLeavesOfType_file_explorer = [],
            getAbstractFileByPath = (\<lambda>p. None),
            writeText = (\<lambda>s. Some (HostError ''NotAllowedError''))\<rparr>"
          _ "\<lparr>settings = DEFAULT_SETTINGS, effects = []\<rparr>" _ "''double''"]
  by (simp add: DEFAULT_SETTINGS_def set_field_def)

end
